theory Spec2Isabelle
  imports Main "HOL-Library.FSet"
begin

section \<open>Conventions\<close>

text \<open>
  The repository is a React/TypeScript front end.  Each component is embedded as the
  pure function from its props and state to what it renders, together with the state
  transformers behind its handlers and effects.  A JavaScript string is a list of
  characters, \<open>s.length\<close> is \<^const>\<open>length\<close>; the counts and hours the backend
  sends (\<open>number\<close> in the interfaces) are integers.  A callback prop is not run: a
  handler returns the callback invocation it makes as a value.
\<close>

text \<open>\<open>a || d\<close> on an optional string: \<open>undefined\<close> and the empty string are falsy.\<close>

definition js_or :: "string option \<Rightarrow> string \<Rightarrow> string" where
  "js_or a d = (case a of None \<Rightarrow> d | Some s \<Rightarrow> if s = [] then d else s)"

text \<open>\<open>{cond && <X/>}\<close> and a component returning \<open>null\<close> render nothing.\<close>

definition rendered :: "'a option \<Rightarrow> 'a list" where
  "rendered x = (case x of None \<Rightarrow> [] | Some y \<Rightarrow> [y])"

section \<open>Data model (src/lib/calendar-api.ts)\<close>

record DayData =
  date :: string
  day_name :: string
  day_number :: int
  month_name :: string
  available_count :: int
  priority :: string
  label :: string
  color :: string
  icon :: string
  conversionRate :: string
  message :: string
  priorityScore :: int

text \<open>One entry of \<open>priority_breakdown\<close>: \<open>{ label; days; total_slots }\<close>.\<close>

record Tier =
  tier_label :: string
  days :: "DayData list"
  tier_total_slots :: int

record PriorityBreakdown =
  critical :: Tier
  urgent :: Tier
  warm :: Tier
  cooling :: Tier

record HeatMapResponse =
  region :: string
  service_area_name :: string
  coverage_description :: string
  priority_breakdown :: PriorityBreakdown
  total_slots_available :: int

datatype Period = Morning | Afternoon | Evening

record TimeSlot =
  event_id :: string
  datetime :: string
  time :: string
  hour :: int
  period :: Period

record GroupedByPeriod =
  morning :: "TimeSlot list"
  afternoon :: "TimeSlot list"
  evening :: "TimeSlot list"

record DaySlotsResponse =
  slots_region :: string
  slots_service_area_name :: string
  slots_date :: string
  day_display :: string
  total_slots :: int
  slots :: "TimeSlot list"
  grouped_by_period :: GroupedByPeriod

section \<open>Rendered elements\<close>

datatype node = Text string | Num int

text \<open>
  A \<open><button>\<close>: its class, its \<open>disabled\<close> attribute, the callback invocation its
  \<open>onClick\<close> handler makes, the inline opacity when one is set, and its content.
\<close>

record 'e button =
  className :: string
  disabled :: bool
  onClick :: 'e
  opacity :: "rat option"
  children :: "node list"

text \<open>A click on a disabled button dispatches no event; otherwise the handler runs.\<close>

definition click :: "'e button \<Rightarrow> 'e option" where
  "click b = (if disabled b then None else Some (onClick b))"

section \<open>CalendarHeatMap.tsx: the sections\<close>

text \<open>The callback props of the heat map, as the invocations a handler can make.\<close>

datatype heatmap_callback = OnDaySelect string DayData | OnError string

definition DayRow :: "DayData \<Rightarrow> heatmap_callback button" where
  "DayRow day =
     \<lparr> className = ''hs-day-row'',
       disabled = (available_count day = 0),
       onClick = OnDaySelect (date day) day,
       opacity = None,
       children = [Text (day_name day), Text (month_name day), Num (day_number day),
                   Text (message day), Num (available_count day)] \<rparr>"

definition DayCard :: "DayData \<Rightarrow> heatmap_callback button" where
  "DayCard day =
     \<lparr> className = ''hs-day-card'',
       disabled = (available_count day = 0),
       onClick = OnDaySelect (date day) day,
       opacity = Some (if available_count day = 0 then 1 / 2 else 1),
       children = [Text (day_name day), Num (day_number day), Num (available_count day)] \<rparr>"

text \<open>\<open>hs-priority-list\<close> (one \<open>DayRow\<close> per day) or \<open>hs-priority-grid\<close> (one \<open>DayCard\<close>).\<close>

datatype section_body =
  PriorityList "heatmap_callback button list"
| PriorityGrid "heatmap_callback button list"

record priority_section =
  accentColor :: string
  header_icon :: "string option"
  header_label :: string
  header_slots :: int
  section_body :: section_body

text \<open>\<open>tier.days[0]?.f\<close>: the field of the first day, \<open>undefined\<close> on an empty list.\<close>

definition first_day :: "(DayData \<Rightarrow> 'a) \<Rightarrow> Tier \<Rightarrow> 'a option" where
  "first_day f tier = (case days tier of [] \<Rightarrow> None | d # _ \<Rightarrow> Some (f d))"

text \<open>The element \<open>PrioritySection\<close> returns once the empty tier is excluded.\<close>

definition priority_section_element :: "Tier \<Rightarrow> bool \<Rightarrow> priority_section" where
  "priority_section_element tier compact =
     \<lparr> accentColor = js_or (first_day color tier) ''#6B7280'',
       header_icon = first_day icon tier,
       header_label = tier_label tier,
       header_slots = tier_total_slots tier,
       section_body =
         (if compact then PriorityGrid (map DayCard (days tier))
          else PriorityList (map DayRow (days tier))) \<rparr>"

definition PrioritySection :: "Tier \<Rightarrow> bool \<Rightarrow> priority_section option" where
  "PrioritySection tier compact =
     (if length (days tier) = 0 then None
      else Some (priority_section_element tier compact))"

text \<open>The children of \<open>hs-heatmap-sections\<close>, in the order of the source.\<close>

definition heatMapSections :: "PriorityBreakdown \<Rightarrow> priority_section list" where
  "heatMapSections pb =
     (if length (days (critical pb)) > 0 then rendered (PrioritySection (critical pb) False) else [])
   @ (if length (days (urgent pb)) > 0 then rendered (PrioritySection (urgent pb) False) else [])
   @ (if length (days (warm pb)) > 0 then rendered (PrioritySection (warm pb) True) else [])
   @ (if length (days (cooling pb)) > 0 then rendered (PrioritySection (cooling pb) True) else [])"

text \<open>\<open>allDays\<close>: the days of the four tiers as one flat array.\<close>

definition allDays :: "PriorityBreakdown \<Rightarrow> DayData list" where
  "allDays pb = days (critical pb) @ days (urgent pb) @ days (warm pb) @ days (cooling pb)"

definition section_buttons :: "priority_section \<Rightarrow> heatmap_callback button list" where
  "section_buttons s = (case section_body s of PriorityList bs \<Rightarrow> bs | PriorityGrid bs \<Rightarrow> bs)"

text \<open>Every day button the heat map shows, section after section.\<close>

definition heatMapButtons :: "PriorityBreakdown \<Rightarrow> heatmap_callback button list" where
  "heatMapButtons pb = concat (map section_buttons (heatMapSections pb))"

section \<open>The slots of a day: the sections\<close>

datatype AmPm = AM | PM

text \<open>The callback props of \<open>DaySlots\<close>.\<close>

datatype dayslots_callback =
  OnBack
| OnSlotSelect string AmPm TimeSlot
| OnSlotsError string

text \<open>\<open>handleSlotClick\<close>; \<open>the_date\<close> is the \<open>date\<close> prop it closes over.\<close>

definition handleSlotClick :: "string \<Rightarrow> TimeSlot \<Rightarrow> dayslots_callback" where
  "handleSlotClick the_date slot =
     (let am_pm = (if hour slot < 12 then AM else PM)
      in OnSlotSelect the_date am_pm slot)"

record 'e slot_period =
  period_title :: string
  period_icon :: string
  period_count :: nat
  period_buttons :: "'e button list"

text \<open>
  \<open>SlotPeriod\<close>: the header with \<open>slots.length\<close> and one enabled button per slot.  The
  three icons of the source are emoji; they are written here by name.
\<close>

definition SlotPeriod ::
  "string \<Rightarrow> string \<Rightarrow> TimeSlot list \<Rightarrow> string \<Rightarrow> (TimeSlot \<Rightarrow> 'e) \<Rightarrow> 'e slot_period" where
  "SlotPeriod title glyph the_slots accent onSlotClick =
     \<lparr> period_title = title,
       period_icon = glyph,
       period_count = length the_slots,
       period_buttons =
         map (\<lambda>slot. \<lparr> className = ''hs-slot-button'', disabled = False,
                        onClick = onSlotClick slot, opacity = None,
                        children = [Text (time slot), Text ''Book''] \<rparr>) the_slots \<rparr>"

datatype 'e dayslots_content =
  EmptyState string
| Periods "'e slot_period list"

text \<open>The children of \<open>hs-dayslots-content\<close>.\<close>

definition daySlotsContent ::
  "string \<Rightarrow> DayData \<Rightarrow> DaySlotsResponse \<Rightarrow> dayslots_callback dayslots_content" where
  "daySlotsContent the_date dayData slotsData =
     (let g = grouped_by_period slotsData in
      if total_slots slotsData = 0 then EmptyState ''No available slots for this day''
      else Periods
        ((if length (morning g) > 0
          then [SlotPeriod ''Morning'' ''sunrise'' (morning g) (color dayData)
                  (handleSlotClick the_date)] else [])
       @ (if length (afternoon g) > 0
          then [SlotPeriod ''Afternoon'' ''sun'' (afternoon g) (color dayData)
                  (handleSlotClick the_date)] else [])
       @ (if length (evening g) > 0
          then [SlotPeriod ''Evening'' ''moon'' (evening g) (color dayData)
                  (handleSlotClick the_date)] else [])))"

section \<open>src/lib/calendar-api.ts\<close>

text \<open>
  \<open>supabase.functions.invoke(name, { body })\<close> resolves to \<open>{ data, error }\<close>, \<open>error\<close>
  being \<open>null\<close> or an object whose \<open>message\<close> may be missing.  The client comes from
  \<open>getSupabase()\<close> of \<open>./supabase\<close>, which is not part of the sources: the client (or
  \<open>null\<close>) and the built-in \<open>parseInt\<close> are parameters of the model.  \<open>'n\<close> is the
  type of what \<open>parseInt\<close> returns, \<open>'d\<close> the type of \<open>data\<close>.
\<close>

datatype 'n body =
  HeatmapBody 'n int      \<comment> \<open>\<open>{ postcode: parseInt(postcode), days_ahead: daysAhead }\<close>\<close>
| DaySlotsBody 'n string  \<comment> \<open>\<open>{ postcode: parseInt(postcode), date }\<close>\<close>

record FunctionsError =
  error_message :: "string option"

record 'd InvokeResult =
  inv_data :: 'd
  inv_error :: "FunctionsError option"

record ('n, 'd) backend =
  getSupabase :: "(string \<Rightarrow> 'n body \<Rightarrow> 'd InvokeResult) option"
  parseInt :: "string \<Rightarrow> 'n"

text \<open>A call of a remote function that was made, with its name and body.\<close>

datatype 'n request = Invoke string "'n body"

text \<open>What a \<open>throw\<close> carries: an \<open>Error\<close> with its message, or some other value.\<close>

datatype thrown = Error string | NonError

text \<open>
  Both functions return the requests they made and either what they throw (\<open>Inl\<close>) or
  the value they resolve to (\<open>Inr\<close>).
\<close>

definition getCalendarHeatMap ::
  "('n, 'd) backend \<Rightarrow> string \<Rightarrow> int \<Rightarrow> 'n request list \<times> (thrown + 'd)" where
  "getCalendarHeatMap env postcode daysAhead =
     (case getSupabase env of
        None \<Rightarrow> ([], Inl (Error ''Supabase client not available''))
      | Some supabase \<Rightarrow>
          (let b = HeatmapBody (parseInt env postcode) daysAhead;
               r = supabase ''get-calendar-heatmap'' b
           in ([Invoke ''get-calendar-heatmap'' b],
               case inv_error r of
                 Some e \<Rightarrow>
                   Inl (Error (js_or (error_message e) ''Failed to fetch calendar availability''))
               | None \<Rightarrow> Inr (inv_data r))))"

definition getDaySlots ::
  "('n, 'd) backend \<Rightarrow> string \<Rightarrow> string \<Rightarrow> 'n request list \<times> (thrown + 'd)" where
  "getDaySlots env postcode the_date =
     (case getSupabase env of
        None \<Rightarrow> ([], Inl (Error ''Supabase client not available''))
      | Some supabase \<Rightarrow>
          (let b = DaySlotsBody (parseInt env postcode) the_date;
               r = supabase ''get-day-slots'' b
           in ([Invoke ''get-day-slots'' b],
               case inv_error r of
                 Some e \<Rightarrow> Inl (Error (js_or (error_message e) ''Failed to fetch day slots''))
               | None \<Rightarrow> Inr (inv_data r))))"

section \<open>CalendarHeatMap.tsx: state, fetch and view\<close>

record heatmap_state =
  loading :: bool
  heatMapData :: "HeatMapResponse option"
  error :: "string option"

text \<open>The three \<open>useState\<close> initial values.\<close>

definition heatmap_initial :: heatmap_state where
  "heatmap_initial = \<lparr> loading = False, heatMapData = None, error = None \<rparr>"

text \<open>
  \<open>fetchHeatMap\<close>, from the call to the end of its \<open>finally\<close>: the requests made, the
  \<open>onError\<close> invocations (none when the optional prop is absent) and the state after
  the last setter.  \<open>fetchHeatMap_pending\<close> is the state while the call is awaited.
\<close>

definition fetchHeatMap_pending :: "heatmap_state \<Rightarrow> heatmap_state" where
  "fetchHeatMap_pending s = s\<lparr> loading := True, error := None \<rparr>"

definition fetchHeatMap ::
  "('n, HeatMapResponse) backend \<Rightarrow> string \<Rightarrow> bool \<Rightarrow> heatmap_state
     \<Rightarrow> 'n request list \<times> heatmap_callback list \<times> heatmap_state" where
  "fetchHeatMap env postcode hasOnError s =
     (let s1 = fetchHeatMap_pending s;
          (reqs, outcome) = getCalendarHeatMap env postcode 14
      in case outcome of
           Inr d \<Rightarrow> (reqs, [], s1\<lparr> heatMapData := Some d, loading := False \<rparr>)
         | Inl err \<Rightarrow>
             (let m = (case err of Error msg \<Rightarrow> msg
                                 | NonError \<Rightarrow> ''Failed to load availability'')
              in (reqs, if hasOnError then [OnError m] else [],
                  s1\<lparr> error := Some m, loading := False \<rparr>)))"

text \<open>The effect on \<open>[postcode]\<close>: \<open>if (postcode && postcode.length === 4) fetchHeatMap()\<close>.\<close>

definition postcodeEffect ::
  "('n, HeatMapResponse) backend \<Rightarrow> string \<Rightarrow> bool \<Rightarrow> heatmap_state
     \<Rightarrow> 'n request list \<times> heatmap_callback list \<times> heatmap_state" where
  "postcodeEffect env postcode hasOnError s =
     (if postcode \<noteq> [] \<and> length postcode = 4 then fetchHeatMap env postcode hasOnError s
      else ([], [], s))"

text \<open>\<open>if (error)\<close> on \<open>string | null\<close>: the message when it is truthy.\<close>

definition truthy :: "string option \<Rightarrow> string option" where
  "truthy e = (case e of None \<Rightarrow> None | Some m \<Rightarrow> if m = [] then None else Some m)"

text \<open>
  What the component returns: the spinner, the error with its Try Again button, the
  prompt, or the header (service area name, total) over the sections.
\<close>

datatype heatmap_view =
  Spinner
| ErrorRetry string
| PostcodePrompt
| HeatMap string int "priority_section list"

definition CalendarHeatMap :: "heatmap_state \<Rightarrow> heatmap_view" where
  "CalendarHeatMap s =
     (if loading s then Spinner
      else case truthy (error s) of
        Some m \<Rightarrow> ErrorRetry m
      | None \<Rightarrow>
          (case heatMapData s of
             None \<Rightarrow> PostcodePrompt
           | Some d \<Rightarrow>
               HeatMap (service_area_name d) (total_slots_available d)
                 (heatMapSections (priority_breakdown d))))"

text \<open>
  The Try Again button exists in the error view only; its \<open>onClick\<close> is \<open>fetchHeatMap\<close>,
  with the postcode the component has at that moment.
\<close>

definition tryAgain ::
  "('n, HeatMapResponse) backend \<Rightarrow> string \<Rightarrow> bool \<Rightarrow> heatmap_state
     \<Rightarrow> 'n request list \<times> heatmap_callback list \<times> heatmap_state" where
  "tryAgain env postcode hasOnError s =
     (case CalendarHeatMap s of
        ErrorRetry _ \<Rightarrow> fetchHeatMap env postcode hasOnError s
      | _ \<Rightarrow> ([], [], s))"

section \<open>The slots of a day: state, fetch and view\<close>

record dayslots_state =
  slots_loading :: bool
  slotsData :: "DaySlotsResponse option"
  slots_error :: "string option"

definition dayslots_initial :: dayslots_state where
  "dayslots_initial = \<lparr> slots_loading = False, slotsData = None, slots_error = None \<rparr>"

definition fetchDaySlots_pending :: "dayslots_state \<Rightarrow> dayslots_state" where
  "fetchDaySlots_pending s = s\<lparr> slots_loading := True, slots_error := None \<rparr>"

text \<open>\<open>fetchDaySlots\<close>; the effect on \<open>[postcode, date]\<close> calls it unconditionally.\<close>

definition fetchDaySlots ::
  "('n, DaySlotsResponse) backend \<Rightarrow> string \<Rightarrow> string \<Rightarrow> bool \<Rightarrow> dayslots_state
     \<Rightarrow> 'n request list \<times> dayslots_callback list \<times> dayslots_state" where
  "fetchDaySlots env postcode the_date hasOnError s =
     (let s1 = fetchDaySlots_pending s;
          (reqs, outcome) = getDaySlots env postcode the_date
      in case outcome of
           Inr d \<Rightarrow> (reqs, [], s1\<lparr> slotsData := Some d, slots_loading := False \<rparr>)
         | Inl err \<Rightarrow>
             (let m = (case err of Error msg \<Rightarrow> msg | NonError \<Rightarrow> ''Failed to load slots'')
              in (reqs, if hasOnError then [OnSlotsError m] else [],
                  s1\<lparr> slots_error := Some m, slots_loading := False \<rparr>)))"

record dayslots_header =
  header_color :: string
  back_button :: "dayslots_callback button"
  header_title :: "string \<times> string"
  header_meta :: string

datatype dayslots_view =
  SlotsSpinner
| SlotsErrorRetry string
| RendersNothing
| SlotsView dayslots_header "dayslots_callback dayslots_content"

definition DaySlots :: "string \<Rightarrow> DayData \<Rightarrow> dayslots_state \<Rightarrow> dayslots_view" where
  "DaySlots the_date dayData s =
     (if slots_loading s then SlotsSpinner
      else case truthy (slots_error s) of
        Some m \<Rightarrow> SlotsErrorRetry m
      | None \<Rightarrow>
          (case slotsData s of
             None \<Rightarrow> RendersNothing
           | Some d \<Rightarrow>
               SlotsView
                 \<lparr> header_color = color dayData,
                   back_button = \<lparr> className = ''hs-dayslots-back'', disabled = False,
                                   onClick = OnBack, opacity = None,
                                   children = [Text ''Back''] \<rparr>,
                   header_title = (icon dayData, day_display d),
                   header_meta = conversionRate dayData \<rparr>
                 (daySlotsContent the_date dayData d)))"

section \<open>LeadInfoAccordion.tsx\<close>

text \<open>
  Modelled from the spec: the types \<open>LeadData\<close>, \<open>LeadSection\<close> and \<open>LeadField\<close> come
  from \<open>lib/lead-api\<close>, which is not part of the sources.  A lead record is an identifier
  and named sections, each a mapping from field key to a field with a presentation
  label and an optional display value.  An object is the list of its keys with their
  values, so \<open>Object.keys\<close> is the list of first components.
\<close>

record LeadField =
  field_label :: string
  field_value :: "string option"

record LeadSection =
  section_label :: string
  section_fields :: "(string \<times> LeadField) list"

record LeadData =
  lead_id :: string
  sections :: "(string \<times> LeadSection) list"

definition Object_keys :: "('k \<times> 'v) list \<Rightarrow> 'k list" where
  "Object_keys obj = map fst obj"

text \<open>\<open>sectionOrder\<close>, whose elements are typed as keys of \<open>leadData.sections\<close>.\<close>

definition sectionOrder :: "string list" where
  "sectionOrder =
     [''contact'', ''leadManagement'', ''property'', ''waterAssessment'',
      ''appointment'', ''referrals'', ''salesNotes'', ''statusFlags'']"

text \<open>
  Modelled from the spec: the sections of a lead record are the fixed eight, contact,
  lead management, property, water assessment, appointment, referrals, sales notes and
  status flags.  \<open>lead_typed\<close> says that a record has these keys, each once.
\<close>

definition lead_typed :: "LeadData \<Rightarrow> bool" where
  "lead_typed leadData \<longleftrightarrow>
     distinct (Object_keys (sections leadData))
     \<and> set (Object_keys (sections leadData)) = set sectionOrder"

text \<open>
  The state \<open>expandedSections\<close> is a a set of strings, read through \<open>has\<close> and \<open>size\<close>
  only: a finite set, \<open>size\<close> its cardinality.  Its initial value:
\<close>

definition initialExpanded :: "string fset" where
  "initialExpanded =
     fset_of_list [''contact'', ''leadManagement'', ''property'', ''waterAssessment'',
                   ''appointment'', ''referrals'', ''salesNotes'', ''statusFlags'']"

definition toggleSection :: "string \<Rightarrow> string fset \<Rightarrow> string fset" where
  "toggleSection sectionKey prev =
     (if sectionKey |\<in>| prev then prev |-| {|sectionKey|} else finsert sectionKey prev)"

definition expandAll :: "LeadData option \<Rightarrow> string fset \<Rightarrow> string fset" where
  "expandAll leadData prev =
     (case leadData of
        Some ld \<Rightarrow> fset_of_list (Object_keys (sections ld))
      | None \<Rightarrow> prev)"

definition collapseAll :: "string fset \<Rightarrow> string fset" where
  "collapseAll prev = {||}"

definition allExpanded :: "string fset \<Rightarrow> bool" where
  "allExpanded expandedSections \<longleftrightarrow> fcard expandedSections = length sectionOrder"

definition allCollapsed :: "string fset \<Rightarrow> bool" where
  "allCollapsed expandedSections \<longleftrightarrow> fcard expandedSections = 0"

text \<open>The handlers a button of the panel can be wired to.\<close>

datatype accordion_handler = ExpandAll | CollapseAll | ToggleSection string

definition run_handler ::
  "LeadData option \<Rightarrow> accordion_handler \<Rightarrow> string fset \<Rightarrow> string fset" where
  "run_handler leadData h expandedSections =
     (case h of
        ExpandAll \<Rightarrow> expandAll leadData expandedSections
      | CollapseAll \<Rightarrow> collapseAll expandedSections
      | ToggleSection k \<Rightarrow> toggleSection k expandedSections)"

text \<open>The two controls of the header, rendered when \<open>leadData\<close> is present.\<close>

definition expandAllButton :: "string fset \<Rightarrow> accordion_handler button" where
  "expandAllButton expandedSections =
     \<lparr> className = (if allExpanded expandedSections then ''text-gray-400 cursor-not-allowed''
                      else ''text-blue-600 hover:bg-blue-50''),
       disabled = allExpanded expandedSections,
       onClick = ExpandAll, opacity = None, children = [Text ''Expand All''] \<rparr>"

definition collapseAllButton :: "string fset \<Rightarrow> accordion_handler button" where
  "collapseAllButton expandedSections =
     \<lparr> className = (if allCollapsed expandedSections then ''text-gray-400 cursor-not-allowed''
                      else ''text-blue-600 hover:bg-blue-50''),
       disabled = allCollapsed expandedSections,
       onClick = CollapseAll, opacity = None, children = [Text ''Collapse All''] \<rparr>"

text \<open>
  The header button of each section of \<open>sectionOrder\<close>, wired to \<open>toggleSection\<close> of its
  key.  The label and the field count it shows are left out.
\<close>

definition sectionHeaderButtons :: "accordion_handler button list" where
  "sectionHeaderButtons =
     map (\<lambda>sectionKey. \<lparr> className = ''w-full'', disabled = False,
                           onClick = ToggleSection sectionKey, opacity = None,
                           children = [] \<rparr>) sectionOrder"

text \<open>Pressing a button: the state after the click, unchanged when none is dispatched.\<close>

definition press ::
  "LeadData option \<Rightarrow> accordion_handler button \<Rightarrow> string fset \<Rightarrow> string fset" where
  "press leadData b expandedSections =
     (case click b of
        None \<Rightarrow> expandedSections
      | Some h \<Rightarrow> run_handler leadData h expandedSections)"

text \<open>
  The expanded-states the panel can be in: the initial one, and what a press of a
  button it renders makes of one, whatever well-typed lead record it then shows.
\<close>

inductive reachable :: "string fset \<Rightarrow> bool" where
  initial: "reachable initialExpanded"
| toggle: "reachable s \<Longrightarrow> b \<in> set sectionHeaderButtons \<Longrightarrow> reachable (press leadData b s)"
| expand: "reachable s \<Longrightarrow> lead_typed ld \<Longrightarrow> reachable (press (Some ld) (expandAllButton s) s)"
| collapse: "reachable s \<Longrightarrow> reachable (press leadData (collapseAllButton s) s)"

section \<open>ServiceAreaMap.tsx\<close>

text \<open>
  A feature of the dataset.  \<open>'n\<close> is the type of a coordinate.  \<open>properties\<close> is
  read with \<open>?.\<close> throughout, so it may be \<open>null\<close>.
\<close>

datatype 'n geometry =
  PointGeometry "'n list"
| PolygonGeometry "'n list list list"

record FeatureProperties =
  name :: "string option"
  type :: "string option"
  style :: "string option"

record 'n GeoJSONFeature =
  properties :: "FeatureProperties option"
  geometry :: "'n geometry"

record 'n GeoJSONCollection =
  features :: "'n GeoJSONFeature list"

text \<open>\<open>feature.properties?.name\<close> and \<open>feature.properties?.type\<close>.\<close>

definition properties_name :: "'n GeoJSONFeature \<Rightarrow> string option" where
  "properties_name f = (case properties f of None \<Rightarrow> None | Some p \<Rightarrow> name p)"

definition properties_type :: "'n GeoJSONFeature \<Rightarrow> string option" where
  "properties_type f = (case properties f of None \<Rightarrow> None | Some p \<Rightarrow> type p)"

text \<open>
  \<open>serviceAreaPolygons\<close>: the features with a Polygon geometry and type
  \<open>service_area\<close>, in the order of the dataset.
\<close>

definition serviceAreaPolygons :: "'n GeoJSONCollection \<Rightarrow> 'n GeoJSONFeature list" where
  "serviceAreaPolygons geoJsonData =
     filter (\<lambda>f. (case geometry f of PolygonGeometry _ \<Rightarrow> True | PointGeometry _ \<Rightarrow> False)
                 \<and> properties_type f = Some ''service_area'')
       (features geoJsonData)"

text \<open>
  The map library (maplibre-gl) and the geometry library (turf) are not part of the
  sources.  Their calls are parameters of the model, and each of them may throw:
  \<open>setLngLat pt\<close> stands for \<open>new maplibregl.Marker(...).setLngLat(pt).addTo(map.current)\<close>,
  \<open>flyTo pt\<close> for \<open>map.current.flyTo({ center: pt, ... })\<close>, \<open>point pt\<close> for \<open>point(pt)\<close>,
  \<open>turfPolygon coords\<close> for \<open>turfPolygon(coords)\<close>, each giving what it throws if it
  does, and \<open>booleanPointInPolygon pt coords\<close> for the test of the point against the
  polygon, giving what it throws or its boolean.
\<close>

record 'n libraries =
  setLngLat :: "'n \<times> 'n \<Rightarrow> thrown option"
  flyTo :: "'n \<times> 'n \<Rightarrow> thrown option"
  point :: "'n \<times> 'n \<Rightarrow> thrown option"
  turfPolygon :: "'n list list list \<Rightarrow> thrown option"
  booleanPointInPolygon :: "'n \<times> 'n \<Rightarrow> 'n list list list \<Rightarrow> thrown + bool"

text \<open>
  The loop of the service-area check: what a library call throws out of it (\<open>Inl\<close>), or
  \<open>foundArea\<close> at its end (\<open>Inr\<close>).
\<close>

fun findArea ::
  "'n libraries \<Rightarrow> 'n \<times> 'n \<Rightarrow> 'n GeoJSONFeature list \<Rightarrow> thrown + string option" where
  "findArea lib pt [] = Inr None"
| "findArea lib pt (feature # rest) =
     (case geometry feature of
        PolygonGeometry coords \<Rightarrow>
          if properties_type feature = Some ''service_area'' then
            (case turfPolygon lib coords of
               Some e \<Rightarrow> Inl e
             | None \<Rightarrow>
                 (case booleanPointInPolygon lib pt coords of
                    Inl e \<Rightarrow> Inl e
                  | Inr found \<Rightarrow>
                      if found then Inr (Some (js_or (properties_name feature) ''Unknown Area''))
                      else findArea lib pt rest))
          else findArea lib pt rest
      | PointGeometry _ \<Rightarrow> findArea lib pt rest)"

text \<open>
  Whether the geometry library takes the polygon of a feature and tests the point
  against it without throwing, and whether the test then says that it contains the point.
\<close>

definition polygon_accepted :: "'n libraries \<Rightarrow> 'n \<times> 'n \<Rightarrow> 'n GeoJSONFeature \<Rightarrow> bool" where
  "polygon_accepted lib pt f =
     (case geometry f of
        PolygonGeometry coords \<Rightarrow>
          turfPolygon lib coords = None
          \<and> (case booleanPointInPolygon lib pt coords of Inl _ \<Rightarrow> False | Inr _ \<Rightarrow> True)
      | PointGeometry _ \<Rightarrow> True)"

definition polygon_contains :: "'n libraries \<Rightarrow> 'n \<times> 'n \<Rightarrow> 'n GeoJSONFeature \<Rightarrow> bool" where
  "polygon_contains lib pt f =
     (case geometry f of
        PolygonGeometry coords \<Rightarrow> booleanPointInPolygon lib pt coords = Inr True
      | PointGeometry _ \<Rightarrow> False)"

text \<open>The operations on the map, and \<open>onServiceAreaCheck(inServiceArea, areaName)\<close>.\<close>

datatype 'n map_operation = MarkerRemove | MarkerAdd 'n 'n | FlyTo 'n 'n

datatype area_check = ServiceAreaCheck bool "string option"

text \<open>
  What a run of the effect has done: the operations on the map, the invocations of the
  callback, what was thrown out of it if anything, and \<open>marker.current\<close> afterwards.
\<close>

record 'n effect_result =
  operations :: "'n map_operation list"
  callbacks :: "area_check list"
  raised :: "thrown option"
  marker_ref :: "('n \<times> 'n) option"

text \<open>
  The effect on \<open>[coordinates, geoJsonData, onServiceAreaCheck]\<close>.  \<open>hasMap\<close> says that
  \<open>map.current\<close> is set, \<open>marker\<close> is \<open>marker.current\<close>, \<open>hasCallback\<close> says that the
  optional prop is supplied.  A throw ends the effect where it happens: the old marker
  is removed before the new one is placed, \<open>marker.current\<close> is assigned once the new one
  is placed, and the callback is the last statement.
\<close>

definition coordinatesEffect ::
  "'n libraries \<Rightarrow> bool \<Rightarrow> ('n \<times> 'n) option \<Rightarrow> ('n \<times> 'n) option
     \<Rightarrow> 'n GeoJSONCollection option \<Rightarrow> bool \<Rightarrow> 'n effect_result" where
  "coordinatesEffect lib hasMap marker coordinates geoJsonData hasCallback =
     (case coordinates of
        None \<Rightarrow> \<lparr> operations = [], callbacks = [], raised = None, marker_ref = marker \<rparr>
      | Some (lng, lat) \<Rightarrow>
          if \<not> hasMap
          then \<lparr> operations = [], callbacks = [], raised = None, marker_ref = marker \<rparr>
          else
            (let removed = (if marker \<noteq> None then [MarkerRemove] else []) in
             case setLngLat lib (lng, lat) of
               Some e \<Rightarrow>
                 \<lparr> operations = removed, callbacks = [], raised = Some e, marker_ref = marker \<rparr>
             | None \<Rightarrow>
                 (case flyTo lib (lng, lat) of
                    Some e \<Rightarrow>
                      \<lparr> operations = removed @ [MarkerAdd lng lat], callbacks = [],
                        raised = Some e, marker_ref = Some (lng, lat) \<rparr>
                  | None \<Rightarrow>
                      (let done = \<lparr> operations = removed @ [MarkerAdd lng lat, FlyTo lng lat],
                                     callbacks = [], raised = None,
                                     marker_ref = Some (lng, lat) \<rparr> in
                       case geoJsonData of
                         None \<Rightarrow> done
                       | Some g \<Rightarrow>
                           if hasCallback then
                             (case point lib (lng, lat) of
                                Some e \<Rightarrow> done\<lparr> raised := Some e \<rparr>
                              | None \<Rightarrow>
                                  (case findArea lib (lng, lat) (features g) of
                                     Inl e \<Rightarrow> done\<lparr> raised := Some e \<rparr>
                                   | Inr foundArea \<Rightarrow>
                                       done\<lparr> callbacks :=
                                               [ServiceAreaCheck (foundArea \<noteq> None) foundArea] \<rparr>))
                           else done))))"

section \<open>Example data\<close>

definition example_day :: "string \<Rightarrow> int \<Rightarrow> DayData" where
  "example_day d n =
     \<lparr> date = d, day_name = ''Mon'', day_number = 3, month_name = ''Nov'',
       available_count = n, priority = ''critical'', label = ''Today'', color = ''#DC2626'',
       icon = ''!'', conversionRate = ''85%'', message = ''Book now'', priorityScore = 100 \<rparr>"

definition example_breakdown :: PriorityBreakdown where
  "example_breakdown =
     \<lparr> critical = \<lparr> tier_label = ''Today'', days = [example_day ''2026-11-03'' 3],
                    tier_total_slots = 3 \<rparr>,
       urgent = \<lparr> tier_label = ''Hot'', days = [], tier_total_slots = 0 \<rparr>,
       warm = \<lparr> tier_label = ''Warm'', days = [], tier_total_slots = 0 \<rparr>,
       cooling = \<lparr> tier_label = ''Cool'', days = [example_day ''2026-11-12'' 0],
                   tier_total_slots = 0 \<rparr> \<rparr>"

definition example_slot :: "string \<Rightarrow> int \<Rightarrow> Period \<Rightarrow> TimeSlot" where
  "example_slot t h p =
     \<lparr> event_id = ''ev-'' @ t, datetime = ''2026-11-03T'' @ t, time = t, hour = h, period = p \<rparr>"

text \<open>A day-slots response with one morning and one afternoon slot and the given total.\<close>

definition example_slots_response :: "int \<Rightarrow> DaySlotsResponse" where
  "example_slots_response n =
     \<lparr> slots_region = ''VIC'', slots_service_area_name = ''North Zone'',
       slots_date = ''2026-11-03'', day_display = ''Tue 3 Nov'', total_slots = n,
       slots = [example_slot ''09:00'' 9 Morning, example_slot ''14:00'' 14 Afternoon],
       grouped_by_period =
         \<lparr> morning = [example_slot ''09:00'' 9 Morning],
           afternoon = [example_slot ''14:00'' 14 Afternoon],
           evening = [] \<rparr> \<rparr>"

definition example_response :: HeatMapResponse where
  "example_response =
     \<lparr> region = ''VIC'', service_area_name = ''North Zone'',
       coverage_description = ''Melbourne north'', priority_breakdown = example_breakdown,
       total_slots_available = 3 \<rparr>"

text \<open>The number a string of decimal digits denotes, as \<open>parseInt\<close> in the examples.\<close>

definition digits_value :: "string \<Rightarrow> nat" where
  "digits_value s = foldl (\<lambda>n c. 10 * n + (of_char c - 48)) 0 s"

text \<open>
  Three backends: one whose remote function answers with \<open>d\<close>, one whose remote
  function returns an error with the given message, and a missing client.
\<close>

definition answering :: "'d \<Rightarrow> (nat, 'd) backend" where
  "answering d =
     \<lparr> getSupabase = Some (\<lambda>fn b. \<lparr> inv_data = d, inv_error = None \<rparr>),
       parseInt = digits_value \<rparr>"

definition refusing :: "'d \<Rightarrow> string option \<Rightarrow> (nat, 'd) backend" where
  "refusing d m =
     \<lparr> getSupabase = Some (\<lambda>fn b. \<lparr> inv_data = d,
                                       inv_error = Some \<lparr> error_message = m \<rparr> \<rparr>),
       parseInt = digits_value \<rparr>"

definition no_client :: "(nat, 'd) backend" where
  "no_client = \<lparr> getSupabase = None, parseInt = digits_value \<rparr>"

text \<open>The heat map after a successful fetch for postcode 3000.\<close>

definition loaded_state :: heatmap_state where
  "loaded_state =
     snd (snd (postcodeEffect (answering example_response) ''3000'' False heatmap_initial))"

text \<open>The heat map after a fetch for postcode 3000 that the remote function refused.\<close>

definition failed_state :: heatmap_state where
  "failed_state =
     snd (snd (postcodeEffect (refusing example_response None) ''3000'' False heatmap_initial))"

definition example_lead :: LeadData where
  "example_lead =
     \<lparr> lead_id = ''L-1'',
       sections = map (\<lambda>k. (k, \<lparr> section_label = k, section_fields = [] \<rparr>)) sectionOrder \<rparr>"

text \<open>
  A dataset of axis-parallel rectangles, for which containment is a comparison with the
  corners of the outer ring: the point lies between the least and the greatest corner
  in each coordinate.
\<close>

definition in_rectangle :: "int \<times> int \<Rightarrow> int list list list \<Rightarrow> bool" where
  "in_rectangle pt coords =
     (case coords of
        [] \<Rightarrow> False
      | ring # _ \<Rightarrow>
          list_ex (\<lambda>p. case p of [x, y] \<Rightarrow> x \<le> fst pt | _ \<Rightarrow> False) ring
          \<and> list_ex (\<lambda>p. case p of [x, y] \<Rightarrow> fst pt \<le> x | _ \<Rightarrow> False) ring
          \<and> list_ex (\<lambda>p. case p of [x, y] \<Rightarrow> y \<le> snd pt | _ \<Rightarrow> False) ring
          \<and> list_ex (\<lambda>p. case p of [x, y] \<Rightarrow> snd pt \<le> y | _ \<Rightarrow> False) ring)"

text \<open>
  The checks the libraries make on such data: the map library refuses a latitude
  outside -90 .. 90, the geometry library a ring of fewer than four positions or one
  whose last position is not its first.
\<close>

definition latitude_check :: "int \<times> int \<Rightarrow> thrown option" where
  "latitude_check pt =
     (if snd pt < - 90 \<or> 90 < snd pt
      then Some (Error ''Invalid LngLat latitude value: must be between -90 and 90'')
      else None)"

fun ring_check :: "int list list list \<Rightarrow> thrown option" where
  "ring_check [] = None"
| "ring_check (ring # rings) =
     (if length ring < 4
      then Some (Error ''Each LinearRing of a Polygon must have 4 or more Positions.'')
      else if last ring \<noteq> hd ring
      then Some (Error ''First and last Position are not equivalent.'')
      else ring_check rings)"

definition example_libraries :: "int libraries" where
  "example_libraries =
     \<lparr> setLngLat = latitude_check,
       flyTo = latitude_check,
       point = (\<lambda>pt. None),
       turfPolygon = ring_check,
       booleanPointInPolygon = (\<lambda>pt coords. Inr (in_rectangle pt coords)) \<rparr>"

definition rectangle :: "string option \<Rightarrow> string \<Rightarrow> int \<Rightarrow> int \<Rightarrow> int \<Rightarrow> int \<Rightarrow> int GeoJSONFeature" where
  "rectangle nm ty x0 y0 x1 y1 =
     \<lparr> properties = Some \<lparr> name = nm, type = Some ty, style = None \<rparr>,
       geometry = PolygonGeometry [[[x0, y0], [x1, y0], [x1, y1], [x0, y1], [x0, y0]]] \<rparr>"

definition example_areas :: "int GeoJSONCollection" where
  "example_areas =
     \<lparr> features =
         [\<lparr> properties = Some \<lparr> name = Some ''Depot'', type = Some ''office'', style = None \<rparr>,
            geometry = PointGeometry [5, 5] \<rparr>,
          rectangle (Some ''Planned Zone'') ''planned'' 0 0 10 10,
          rectangle (Some ''North Zone'') ''service_area'' 0 0 10 10,
          rectangle (Some ''Wider Zone'') ''service_area'' 0 0 50 50,
          rectangle None ''service_area'' 100 40 110 50] \<rparr>"

text \<open>A dataset whose only service area has a ring of three positions.\<close>

definition malformed_areas :: "int GeoJSONCollection" where
  "malformed_areas =
     \<lparr> features =
         [\<lparr> properties = Some \<lparr> name = Some ''Broken Zone'', type = Some ''service_area'',
                               style = None \<rparr>,
            geometry = PolygonGeometry [[[0, 0], [10, 0], [0, 0]]] \<rparr>] \<rparr>"

section \<open>Heat-map sections\<close>

lemma rendered_PrioritySection:
  "rendered (PrioritySection t c) = (if days t = [] then [] else [priority_section_element t c])"
  by (simp add: rendered_def PrioritySection_def)

lemma heatMapSections_filter:
  "heatMapSections pb =
     map (\<lambda>(t, c). priority_section_element t c)
       (filter (\<lambda>(t, c). days t \<noteq> [])
          [(critical pb, False), (urgent pb, False), (warm pb, True), (cooling pb, True)])"
  by (simp add: heatMapSections_def rendered_PrioritySection)

text \<open>
  C1.  With a response stored, no fetch under way and no error, the component shows
  the sections of the response.  There is one section for each tier whose day list is non-empty and
  none for the others, in the order critical, urgent, warm, cooling; the sections of
  critical and urgent are the detailed list (a \<open>DayRow\<close> per day), those of warm and
  cooling the compact grid (a \<open>DayCard\<close> per day), each under its tier's label and total.
\<close>

theorem heatmap_renders_nonempty_tiers_in_order:
  "CalendarHeatMap \<lparr> loading = False, heatMapData = Some r, error = None \<rparr>
     = HeatMap (service_area_name r) (total_slots_available r)
         (heatMapSections (priority_breakdown r))
   \<and> heatMapSections pb =
     map (\<lambda>(t, compact). priority_section_element t compact)
       (filter (\<lambda>(t, compact). days t \<noteq> [])
          [(critical pb, False), (urgent pb, False), (warm pb, True), (cooling pb, True)])
   \<and> (\<forall>t. section_body (priority_section_element t False) = PriorityList (map DayRow (days t)))
   \<and> (\<forall>t. section_body (priority_section_element t True) = PriorityGrid (map DayCard (days t)))
   \<and> (\<forall>t c. header_label (priority_section_element t c) = tier_label t
            \<and> header_slots (priority_section_element t c) = tier_total_slots t)
   \<and> (\<forall>t c. (PrioritySection t c = None) = (days t = []))"
  by (simp add: heatMapSections_filter priority_section_element_def PrioritySection_def
      CalendarHeatMap_def truthy_def)

theorem heatmap_renders_nonempty_tiers_in_order_witness:
  "heatMapSections example_breakdown =
     [priority_section_element (critical example_breakdown) False,
      priority_section_element (cooling example_breakdown) True]"
  using heatmap_renders_nonempty_tiers_in_order [of example_response example_breakdown]
  by (simp add: example_breakdown_def)

section \<open>Day controls\<close>

lemma section_buttons_element:
  "section_buttons (priority_section_element t c) =
     (if c then map DayCard (days t) else map DayRow (days t))"
  by (simp add: section_buttons_def priority_section_element_def)

lemma heatMapButtons_eq:
  "heatMapButtons pb =
     map DayRow (days (critical pb)) @ map DayRow (days (urgent pb))
     @ map DayCard (days (warm pb)) @ map DayCard (days (cooling pb))"
  by (simp add: heatMapButtons_def heatMapSections_filter section_buttons_element)

lemma heatMapButtons_cases:
  assumes "b \<in> set (heatMapButtons pb)"
  obtains d where "d \<in> set (allDays pb)" and "b = DayRow d \<or> b = DayCard d"
  using assms unfolding heatMapButtons_eq allDays_def by auto

lemma day_control_behaviour:
  assumes "b = DayRow d \<or> b = DayCard d"
  shows "disabled b = (available_count d = 0)"
    and "click b = (if available_count d = 0 then None else Some (OnDaySelect (date d) d))"
  using assms by (auto simp: DayRow_def DayCard_def click_def)

text \<open>
  C2.  Every button the heat map renders, in a list or in a grid, is the \<open>DayRow\<close> or
  the \<open>DayCard\<close> of a day of the response; it is disabled exactly when that day's
  \<open>available_count\<close> is 0, and for a day with a positive count a click invokes
  \<open>onDaySelect\<close> with the day's date and the whole Day Entry.
\<close>

theorem day_control_disabled_iff_no_slots:
  assumes "b \<in> set (heatMapButtons pb)"
  shows "\<exists>d \<in> set (allDays pb).
           (b = DayRow d \<or> b = DayCard d)
         \<and> (disabled b \<longleftrightarrow> available_count d = 0)
         \<and> (0 < available_count d \<longrightarrow> click b = Some (OnDaySelect (date d) d))
         \<and> (available_count d = 0 \<longrightarrow> click b = None)"
proof -
  from assms obtain d where d: "d \<in> set (allDays pb)" "b = DayRow d \<or> b = DayCard d"
    by (rule heatMapButtons_cases)
  from day_control_behaviour [OF d(2)] d show ?thesis
    by (intro bexI [of _ d]) auto
qed

lemma day_button_inject:
  assumes "b = DayRow d \<or> b = DayCard d" and "b = DayRow d' \<or> b = DayCard d'"
  shows "d = d'"
proof -
  from assms(1) have "onClick b = OnDaySelect (date d) d"
    by (auto simp: DayRow_def DayCard_def)
  moreover from assms(2) have "onClick b = OnDaySelect (date d') d'"
    by (auto simp: DayRow_def DayCard_def)
  ultimately show ?thesis by simp
qed

theorem day_control_disabled_iff_no_slots_witness:
  "DayRow (example_day ''2026-11-03'' 3) \<in> set (heatMapButtons example_breakdown)
   \<and> \<not> disabled (DayRow (example_day ''2026-11-03'' 3))
   \<and> click (DayRow (example_day ''2026-11-03'' 3))
       = Some (OnDaySelect ''2026-11-03'' (example_day ''2026-11-03'' 3))
   \<and> DayCard (example_day ''2026-11-12'' 0) \<in> set (heatMapButtons example_breakdown)
   \<and> disabled (DayCard (example_day ''2026-11-12'' 0))
   \<and> click (DayCard (example_day ''2026-11-12'' 0)) = None"
proof -
  let ?open = "example_day ''2026-11-03'' 3" and ?full = "example_day ''2026-11-12'' 0"
  have m: "DayRow ?open \<in> set (heatMapButtons example_breakdown)"
    and m': "DayCard ?full \<in> set (heatMapButtons example_breakdown)"
    by (simp_all add: heatMapButtons_eq example_breakdown_def)
  have a: "available_count ?open = 3" "date ?open = ''2026-11-03''" "available_count ?full = 0"
    by (simp_all add: example_day_def)
  from day_control_disabled_iff_no_slots [OF m]
  obtain d where d: "DayRow ?open = DayRow d \<or> DayRow ?open = DayCard d"
      "disabled (DayRow ?open) \<longleftrightarrow> available_count d = 0"
      "0 < available_count d \<longrightarrow> click (DayRow ?open) = Some (OnDaySelect (date d) d)"
    by blast
  from d(1) have "d = ?open"
    by (rule day_button_inject) simp
  with d(2,3) a have 1: "\<not> disabled (DayRow ?open)"
    and 2: "click (DayRow ?open) = Some (OnDaySelect ''2026-11-03'' ?open)"
    by simp_all
  from day_control_disabled_iff_no_slots [OF m']
  obtain e where e: "DayCard ?full = DayRow e \<or> DayCard ?full = DayCard e"
      "disabled (DayCard ?full) \<longleftrightarrow> available_count e = 0"
      "available_count e = 0 \<longrightarrow> click (DayCard ?full) = None"
    by blast
  from e(1) have "e = ?full"
    by (rule day_button_inject) simp
  with e(2,3) a have 3: "disabled (DayCard ?full)" and 4: "click (DayCard ?full) = None"
    by simp_all
  from m 1 2 m' 3 4 show ?thesis by blast
qed

section \<open>Slot selection\<close>

text \<open>
  C3.  Selecting a slot invokes \<open>onSlotSelect\<close> with the date, with AM when the slot's
  \<open>hour\<close> is below 12 and PM otherwise, and with the whole Time Slot; so does a click on
  each button of a period.  Hour 9 gives AM, hours 12 and 14 give PM.
\<close>

theorem slot_click_reports_am_pm:
  "handleSlotClick d slot = OnSlotSelect d (if hour slot < 12 then AM else PM) slot
   \<and> map click (period_buttons (SlotPeriod t g sl a (handleSlotClick d)))
       = map (\<lambda>slot. Some (OnSlotSelect d (if hour slot < 12 then AM else PM) slot)) sl
   \<and> (hour slot = 9 \<longrightarrow> handleSlotClick d slot = OnSlotSelect d AM slot)
   \<and> (hour slot = 12 \<longrightarrow> handleSlotClick d slot = OnSlotSelect d PM slot)
   \<and> (hour slot = 14 \<longrightarrow> handleSlotClick d slot = OnSlotSelect d PM slot)"
  by (simp add: handleSlotClick_def SlotPeriod_def click_def comp_def)

theorem slot_click_reports_am_pm_witness:
  "handleSlotClick ''2026-11-03'' (example_slot ''09:00'' 9 Morning)
     = OnSlotSelect ''2026-11-03'' AM (example_slot ''09:00'' 9 Morning)
   \<and> handleSlotClick ''2026-11-03'' (example_slot ''12:00'' 12 Afternoon)
     = OnSlotSelect ''2026-11-03'' PM (example_slot ''12:00'' 12 Afternoon)
   \<and> handleSlotClick ''2026-11-03'' (example_slot ''14:00'' 14 Afternoon)
     = OnSlotSelect ''2026-11-03'' PM (example_slot ''14:00'' 14 Afternoon)"
  using slot_click_reports_am_pm [of "''2026-11-03''" "example_slot ''09:00'' 9 Morning"]
    slot_click_reports_am_pm [of "''2026-11-03''" "example_slot ''12:00'' 12 Afternoon"]
    slot_click_reports_am_pm [of "''2026-11-03''" "example_slot ''14:00'' 14 Afternoon"]
  by (simp add: example_slot_def)

section \<open>Slots of a day\<close>



section \<open>API\<close>

lemma js_or_nonempty: "d \<noteq> [] \<Longrightarrow> js_or a d \<noteq> []"
  by (simp add: js_or_def split: option.splits)

lemma getCalendarHeatMap_cases:
  "getCalendarHeatMap env pc n =
     (case getSupabase env of
        None \<Rightarrow> ([], Inl (Error ''Supabase client not available''))
      | Some c \<Rightarrow>
          ([Invoke ''get-calendar-heatmap'' (HeatmapBody (parseInt env pc) n)],
           case inv_error (c ''get-calendar-heatmap'' (HeatmapBody (parseInt env pc) n)) of
             Some e \<Rightarrow>
               Inl (Error (js_or (error_message e) ''Failed to fetch calendar availability''))
           | None \<Rightarrow> Inr (inv_data (c ''get-calendar-heatmap'' (HeatmapBody (parseInt env pc) n)))))"
  by (simp add: getCalendarHeatMap_def Let_def split: option.splits)

lemma getDaySlots_cases:
  "getDaySlots env pc dt =
     (case getSupabase env of
        None \<Rightarrow> ([], Inl (Error ''Supabase client not available''))
      | Some c \<Rightarrow>
          ([Invoke ''get-day-slots'' (DaySlotsBody (parseInt env pc) dt)],
           case inv_error (c ''get-day-slots'' (DaySlotsBody (parseInt env pc) dt)) of
             Some e \<Rightarrow> Inl (Error (js_or (error_message e) ''Failed to fetch day slots''))
           | None \<Rightarrow> Inr (inv_data (c ''get-day-slots'' (DaySlotsBody (parseInt env pc) dt)))))"
  by (simp add: getDaySlots_def Let_def split: option.splits)

lemma getCalendarHeatMap_throws:
  assumes "snd (getCalendarHeatMap env pc n) = Inl t"
  shows "\<exists>m. t = Error m \<and> m \<noteq> []"
  using assms js_or_nonempty [of "''Failed to fetch calendar availability''"]
  by (auto simp: getCalendarHeatMap_cases split: option.splits)

lemma getDaySlots_throws:
  assumes "snd (getDaySlots env pc dt) = Inl t"
  shows "\<exists>m. t = Error m \<and> m \<noteq> []"
  using assms js_or_nonempty [of "''Failed to fetch day slots''"]
  by (auto simp: getDaySlots_cases split: option.splits)

text \<open>
  C6.  \<open>getCalendarHeatMap\<close> and \<open>getDaySlots\<close> throw exactly when there is no client or
  the remote call returns an error; what they throw is an \<open>Error\<close> with a non-empty
  message; otherwise they resolve to the \<open>data\<close> of the remote response as it is.
\<close>

theorem api_raises_iff_no_client_or_remote_error:
  "((\<exists>t. snd (getCalendarHeatMap env pc n) = Inl t) \<longleftrightarrow>
      (getSupabase env = None
       \<or> (\<exists>c. getSupabase env = Some c
              \<and> inv_error (c ''get-calendar-heatmap'' (HeatmapBody (parseInt env pc) n)) \<noteq> None)))
   \<and> (\<forall>t. snd (getCalendarHeatMap env pc n) = Inl t \<longrightarrow> (\<exists>m. t = Error m \<and> m \<noteq> []))
   \<and> (\<forall>c. getSupabase env = Some c
            \<and> inv_error (c ''get-calendar-heatmap'' (HeatmapBody (parseInt env pc) n)) = None \<longrightarrow>
          snd (getCalendarHeatMap env pc n)
            = Inr (inv_data (c ''get-calendar-heatmap'' (HeatmapBody (parseInt env pc) n))))
   \<and> ((\<exists>t. snd (getDaySlots env pc dt) = Inl t) \<longleftrightarrow>
      (getSupabase env = None
       \<or> (\<exists>c. getSupabase env = Some c
              \<and> inv_error (c ''get-day-slots'' (DaySlotsBody (parseInt env pc) dt)) \<noteq> None)))
   \<and> (\<forall>t. snd (getDaySlots env pc dt) = Inl t \<longrightarrow> (\<exists>m. t = Error m \<and> m \<noteq> []))
   \<and> (\<forall>c. getSupabase env = Some c
            \<and> inv_error (c ''get-day-slots'' (DaySlotsBody (parseInt env pc) dt)) = None \<longrightarrow>
          snd (getDaySlots env pc dt)
            = Inr (inv_data (c ''get-day-slots'' (DaySlotsBody (parseInt env pc) dt))))"
proof (intro conjI)
  show "\<forall>t. snd (getCalendarHeatMap env pc n) = Inl t \<longrightarrow> (\<exists>m. t = Error m \<and> m \<noteq> [])"
    using getCalendarHeatMap_throws by blast
  show "\<forall>t. snd (getDaySlots env pc dt) = Inl t \<longrightarrow> (\<exists>m. t = Error m \<and> m \<noteq> [])"
    using getDaySlots_throws by blast
qed (auto simp: getCalendarHeatMap_cases getDaySlots_cases split: option.splits)

theorem api_raises_iff_no_client_or_remote_error_witness:
  "snd (getCalendarHeatMap (answering example_response) ''3000'' 14) = Inr example_response
   \<and> snd (getDaySlots (answering (example_slots_response 2)) ''3000'' ''2026-11-03'')
       = Inr (example_slots_response 2)
   \<and> (\<exists>t. snd (getCalendarHeatMap (no_client :: (nat, HeatMapResponse) backend) ''3000'' 14) = Inl t)
   \<and> (\<exists>t. snd (getDaySlots (refusing (example_slots_response 0) None) ''3000'' ''2026-11-03'')
           = Inl t)"
  using api_raises_iff_no_client_or_remote_error
          [of "answering example_response" "''3000''" 14 "''2026-11-03''"]
        api_raises_iff_no_client_or_remote_error
          [of "answering (example_slots_response 2)" "''3000''" 14 "''2026-11-03''"]
        api_raises_iff_no_client_or_remote_error
          [of "no_client :: (nat, HeatMapResponse) backend" "''3000''" 14 "''2026-11-03''"]
        api_raises_iff_no_client_or_remote_error
          [of "refusing (example_slots_response 0) None" "''3000''" 14 "''2026-11-03''"]
  by (simp add: answering_def no_client_def refusing_def)

section \<open>Failed fetches\<close>

lemma fetchHeatMap_failed:
  assumes "snd (getCalendarHeatMap env pc 14) = Inl (Error m)"
  shows "snd (snd (fetchHeatMap env pc h s)) = s\<lparr> loading := False, error := Some m \<rparr>"
  using assms by (cases "getCalendarHeatMap env pc 14")
    (simp add: fetchHeatMap_def fetchHeatMap_pending_def)

lemma fetchDaySlots_failed:
  assumes "snd (getDaySlots env pc dt) = Inl (Error m)"
  shows "snd (snd (fetchDaySlots env pc dt h s))
           = s\<lparr> slots_loading := False, slots_error := Some m \<rparr>"
  using assms by (cases "getDaySlots env pc dt")
    (simp add: fetchDaySlots_def fetchDaySlots_pending_def)

lemma truthy_nonempty: "m \<noteq> [] \<Longrightarrow> truthy (Some m) = Some m"
  by (simp add: truthy_def)

text \<open>
  C5 (as amended).  When a heat-map or day-slots fetch fails, the response stored by an
  earlier fetch stays in the state as it was; it is not shown, because the component
  leaves the loading state with the error set to the non-empty message of what was
  thrown, and renders that message with the retry control.
\<close>

theorem failed_fetch_keeps_stored_response:
  "(\<forall>t. snd (getCalendarHeatMap env pc 14) = Inl t \<longrightarrow>
        heatMapData (snd (snd (fetchHeatMap env pc h s))) = heatMapData s
      \<and> \<not> loading (snd (snd (fetchHeatMap env pc h s)))
      \<and> (\<exists>m. m \<noteq> [] \<and> t = Error m
             \<and> error (snd (snd (fetchHeatMap env pc h s))) = Some m
             \<and> CalendarHeatMap (snd (snd (fetchHeatMap env pc h s))) = ErrorRetry m))
   \<and> (\<forall>t. snd (getDaySlots env' pc dt) = Inl t \<longrightarrow>
        slotsData (snd (snd (fetchDaySlots env' pc dt h s'))) = slotsData s'
      \<and> \<not> slots_loading (snd (snd (fetchDaySlots env' pc dt h s')))
      \<and> (\<exists>m. m \<noteq> [] \<and> t = Error m
             \<and> slots_error (snd (snd (fetchDaySlots env' pc dt h s'))) = Some m
             \<and> DaySlots dt dayData (snd (snd (fetchDaySlots env' pc dt h s')))
                 = SlotsErrorRetry m))"
proof (intro conjI allI impI)
  fix t assume t: "snd (getCalendarHeatMap env pc 14) = Inl t"
  then obtain m where m: "t = Error m" "m \<noteq> []"
    using getCalendarHeatMap_throws by blast
  let ?s = "snd (snd (fetchHeatMap env pc h s))"
  have eq: "?s = s\<lparr> loading := False, error := Some m \<rparr>"
    using t m(1) by (simp add: fetchHeatMap_failed)
  show "heatMapData ?s = heatMapData s" and "\<not> loading ?s"
    by (simp_all add: eq)
  show "\<exists>m. m \<noteq> [] \<and> t = Error m \<and> error ?s = Some m \<and> CalendarHeatMap ?s = ErrorRetry m"
    using m by (intro exI [of _ m]) (simp add: eq CalendarHeatMap_def truthy_nonempty)
next
  fix t assume t: "snd (getDaySlots env' pc dt) = Inl t"
  then obtain m where m: "t = Error m" "m \<noteq> []"
    using getDaySlots_throws by blast
  let ?s = "snd (snd (fetchDaySlots env' pc dt h s'))"
  have eq: "?s = s'\<lparr> slots_loading := False, slots_error := Some m \<rparr>"
    using t m(1) by (simp add: fetchDaySlots_failed)
  show "slotsData ?s = slotsData s'" and "\<not> slots_loading ?s"
    by (simp_all add: eq)
  show "\<exists>m. m \<noteq> [] \<and> t = Error m \<and> slots_error ?s = Some m
          \<and> DaySlots dt dayData ?s = SlotsErrorRetry m"
    using m by (intro exI [of _ m]) (simp add: eq DaySlots_def truthy_nonempty)
qed

lemma loaded_state_eq:
  "loaded_state = \<lparr> loading = False, heatMapData = Some example_response, error = None \<rparr>"
  by (simp add: loaded_state_def postcodeEffect_def fetchHeatMap_def fetchHeatMap_pending_def
      getCalendarHeatMap_cases answering_def heatmap_initial_def)

lemma failed_state_eq:
  "failed_state = \<lparr> loading = False, heatMapData = None,
                    error = Some ''Failed to fetch calendar availability'' \<rparr>"
  by (simp add: failed_state_def postcodeEffect_def fetchHeatMap_def fetchHeatMap_pending_def
      getCalendarHeatMap_cases refusing_def heatmap_initial_def js_or_def)

lemma refused_heatmap_throws:
  "snd (getCalendarHeatMap (refusing d (Some ''quota exceeded'')) pc n)
     = Inl (Error ''quota exceeded'')"
  by (simp add: getCalendarHeatMap_cases refusing_def js_or_def)

lemma no_client_throws:
  "snd (getCalendarHeatMap (no_client :: (nat, HeatMapResponse) backend) pc 14)
     = Inl (Error ''Supabase client not available'')"
  by (simp add: getCalendarHeatMap_cases no_client_def)

lemma refused_slots_throws:
  "snd (getDaySlots (refusing d (Some ''quota exceeded'')) pc dt) = Inl (Error ''quota exceeded'')"
  by (simp add: getDaySlots_cases refusing_def js_or_def)

theorem failed_fetch_keeps_stored_response_witness:
  "heatMapData (snd (snd (fetchHeatMap (no_client :: (nat, HeatMapResponse) backend)
                            ''3000'' True loaded_state)))
     = Some example_response
   \<and> CalendarHeatMap (snd (snd (fetchHeatMap (no_client :: (nat, HeatMapResponse) backend)
                                   ''3000'' True loaded_state)))
     = ErrorRetry ''Supabase client not available''
   \<and> slotsData (snd (snd (fetchDaySlots (refusing (example_slots_response 0)
                                           (Some ''quota exceeded''))
                            ''3000'' ''2026-11-03'' True
                            \<lparr> slots_loading = False,
                              slotsData = Some (example_slots_response 2),
                              slots_error = None \<rparr>)))
     = Some (example_slots_response 2)
   \<and> DaySlots ''2026-11-03'' (example_day ''2026-11-03'' 2)
       (snd (snd (fetchDaySlots (refusing (example_slots_response 0) (Some ''quota exceeded''))
                    ''3000'' ''2026-11-03'' True
                    \<lparr> slots_loading = False,
                      slotsData = Some (example_slots_response 2),
                      slots_error = None \<rparr>)))
     = SlotsErrorRetry ''quota exceeded''"
proof -
  let ?none = "no_client :: (nat, HeatMapResponse) backend"
  let ?ref = "refusing (example_slots_response 0) (Some ''quota exceeded'')"
  let ?s = "\<lparr> slots_loading = False, slotsData = Some (example_slots_response 2),
              slots_error = None \<rparr>"
  note t = failed_fetch_keeps_stored_response
             [of ?none "''3000''" True loaded_state ?ref "''2026-11-03''" ?s
                 "example_day ''2026-11-03'' 2"]
  from t no_client_throws [of "''3000''"]
  have 1: "heatMapData (snd (snd (fetchHeatMap ?none ''3000'' True loaded_state)))
      = heatMapData loaded_state"
    and 2: "CalendarHeatMap (snd (snd (fetchHeatMap ?none ''3000'' True loaded_state)))
      = ErrorRetry ''Supabase client not available''"
    by auto
  from t refused_slots_throws [of "example_slots_response 0" "''3000''" "''2026-11-03''"]
  have 3: "slotsData (snd (snd (fetchDaySlots ?ref ''3000'' ''2026-11-03'' True ?s)))
      = slotsData ?s"
    and 4: "DaySlots ''2026-11-03'' (example_day ''2026-11-03'' 2)
        (snd (snd (fetchDaySlots ?ref ''3000'' ''2026-11-03'' True ?s)))
      = SlotsErrorRetry ''quota exceeded''"
    by auto
  from 1 2 3 4 show ?thesis by (simp add: loaded_state_eq)
qed

text \<open>
  The specification has the stored response discarded.  It is not: after a successful
  fetch and a failed one the state still holds the response.
\<close>

theorem failed_fetch_discards_response_counterexample:
  "heatMapData loaded_state = Some example_response
   \<and> snd (getCalendarHeatMap (refusing example_response (Some ''quota exceeded'')) ''3000'' 14)
       = Inl (Error ''quota exceeded'')
   \<and> heatMapData (snd (snd (fetchHeatMap (refusing example_response (Some ''quota exceeded''))
                              ''3000'' False loaded_state)))
       = Some example_response
   \<and> heatMapData (snd (snd (fetchHeatMap (refusing example_response (Some ''quota exceeded''))
                              ''3000'' False loaded_state)))
       \<noteq> None"
  by (simp add: refused_heatmap_throws fetchHeatMap_failed loaded_state_eq)

section \<open>Postcode\<close>

lemma fetchHeatMap_requests:
  "fst (fetchHeatMap env pc h s) =
     (if getSupabase env = None then []
      else [Invoke ''get-calendar-heatmap'' (HeatmapBody (parseInt env pc) 14)])"
  by (simp add: fetchHeatMap_def getCalendarHeatMap_cases Let_def split: option.splits)

text \<open>
  C9 (as amended).  The effect on the postcode calls \<open>fetchHeatMap\<close> exactly when the
  postcode has length 4, which makes one backend request when a client is available;
  for every other postcode it makes no request and leaves the state as it is.  The
  prompt is then shown exactly when no response is stored (no fetch being under way and
  no error shown), as in the initial state.
\<close>

theorem postcode_effect_fetches_iff_length_four:
  "(length pc = 4 \<longrightarrow> postcodeEffect env pc h s = fetchHeatMap env pc h s)
   \<and> (length pc \<noteq> 4 \<longrightarrow> postcodeEffect env pc h s = ([], [], s))
   \<and> (fst (postcodeEffect env pc h s) \<noteq> [] \<longrightarrow> pc \<noteq> [] \<and> length pc = 4)
   \<and> (length pc = 4 \<longrightarrow>
        fst (postcodeEffect env pc h s) =
          (if getSupabase env = None then []
           else [Invoke ''get-calendar-heatmap'' (HeatmapBody (parseInt env pc) 14)]))
   \<and> (length pc \<noteq> 4 \<and> \<not> loading s \<and> truthy (error s) = None \<longrightarrow>
        (CalendarHeatMap (snd (snd (postcodeEffect env pc h s))) = PostcodePrompt
           \<longleftrightarrow> heatMapData s = None))
   \<and> (length pc \<noteq> 4 \<longrightarrow>
        CalendarHeatMap (snd (snd (postcodeEffect env pc h heatmap_initial))) = PostcodePrompt)"
proof -
  have a: "length pc = 4 \<Longrightarrow> postcodeEffect env pc h s = fetchHeatMap env pc h s" for s
    by (auto simp: postcodeEffect_def)
  have b: "length pc \<noteq> 4 \<Longrightarrow> postcodeEffect env pc h s = ([], [], s)" for s
    by (simp add: postcodeEffect_def)
  have c: "\<not> loading s \<Longrightarrow> truthy (error s) = None \<Longrightarrow>
      (CalendarHeatMap s = PostcodePrompt) = (heatMapData s = None)"
    by (simp add: CalendarHeatMap_def split: option.splits)
  have d: "CalendarHeatMap heatmap_initial = PostcodePrompt"
    by (simp add: CalendarHeatMap_def heatmap_initial_def truthy_def)
  show ?thesis
  proof (cases "length pc = 4")
    case True
    then show ?thesis using a by (auto simp: fetchHeatMap_requests)
  next
    case False
    then show ?thesis using b c d by simp
  qed
qed

lemma digits_value_examples:
  "digits_value ''3000'' = 3000" "digits_value ''300'' = 300" "digits_value ''30'' = 30"
  by (simp_all add: digits_value_def)


theorem postcode_effect_fetches_iff_length_four_witness:
  "fst (postcodeEffect (answering example_response) ''3000'' False heatmap_initial)
     = [Invoke ''get-calendar-heatmap'' (HeatmapBody 3000 14)]
   \<and> postcodeEffect (answering example_response) ''300'' False heatmap_initial
     = ([], [], heatmap_initial)
   \<and> CalendarHeatMap
       (snd (snd (postcodeEffect (answering example_response) ''300'' False heatmap_initial)))
     = PostcodePrompt"
proof -
  let ?env = "answering example_response"
  have env: "getSupabase ?env \<noteq> None" "parseInt ?env ''3000'' = 3000"
    by (simp_all add: answering_def digits_value_examples)
  have len: "length ''3000'' = 4" "length ''300'' \<noteq> 4"
    by simp_all
  from postcode_effect_fetches_iff_length_four [of "''3000''" ?env False heatmap_initial]
  have "fst (postcodeEffect ?env ''3000'' False heatmap_initial) =
          (if getSupabase ?env = None then []
           else [Invoke ''get-calendar-heatmap'' (HeatmapBody (parseInt ?env ''3000'') 14)])"
    using len by blast
  with env have 1: "fst (postcodeEffect ?env ''3000'' False heatmap_initial)
      = [Invoke ''get-calendar-heatmap'' (HeatmapBody 3000 14)]"
    by simp
  from postcode_effect_fetches_iff_length_four [of "''300''" ?env False heatmap_initial]
  have 2: "postcodeEffect ?env ''300'' False heatmap_initial = ([], [], heatmap_initial)"
    and 3: "CalendarHeatMap (snd (snd (postcodeEffect ?env ''300'' False heatmap_initial)))
      = PostcodePrompt"
    using len by blast+
  from 1 2 3 show ?thesis by blast
qed

text \<open>
  The unamended statement has the prompt shown for every postcode of another length,
  and no fetch but for a postcode of length 4.  With a response stored, postcode 300
  leaves the heat map on screen, and Try Again, still on screen after a failure when the
  postcode has become 30, fetches for postcode 30.
\<close>

theorem prompt_for_other_postcodes_counterexample:
  "length ''300'' \<noteq> 4
   \<and> fst (postcodeEffect (answering example_response) ''300'' False loaded_state) = []
   \<and> CalendarHeatMap
       (snd (snd (postcodeEffect (answering example_response) ''300'' False loaded_state)))
     \<noteq> PostcodePrompt
   \<and> length ''30'' \<noteq> 4
   \<and> fst (tryAgain (refusing example_response None) ''30'' False
            (snd (snd (postcodeEffect (refusing example_response None) ''30'' False
                         failed_state))))
     = [Invoke ''get-calendar-heatmap'' (HeatmapBody 30 14)]"
  by (simp add: postcodeEffect_def loaded_state_eq failed_state_eq CalendarHeatMap_def
      truthy_def tryAgain_def fetchHeatMap_requests answering_def refusing_def
      digits_value_examples)

section \<open>Lead panel\<close>

lemma sectionOrder_length: "length sectionOrder = 8"
  by (simp add: sectionOrder_def)

lemma sectionOrder_distinct: "distinct sectionOrder"
  by (simp add: sectionOrder_def)

lemma initialExpanded_eq: "initialExpanded = fset_of_list sectionOrder"
  by (simp add: initialExpanded_def sectionOrder_def)

lemma fcard_fset_of_list_distinct: "distinct xs \<Longrightarrow> fcard (fset_of_list xs) = length xs"
  by (simp add: fcard.rep_eq fset_of_list.rep_eq distinct_card)

lemma fcard_initialExpanded: "fcard initialExpanded = 8"
  by (simp add: initialExpanded_eq fcard_fset_of_list_distinct sectionOrder_distinct
      sectionOrder_length)

lemma lead_typed_keys:
  "lead_typed ld \<Longrightarrow> fset_of_list (Object_keys (sections ld)) = initialExpanded"
  unfolding initialExpanded_eq lead_typed_def
  by (metis fset_of_list.rep_eq fset_inverse)

lemma subset_initial_size:
  assumes "s |\<subseteq>| initialExpanded"
  shows "allExpanded s \<longleftrightarrow> s = initialExpanded"
proof
  assume "allExpanded s"
  then have "fcard initialExpanded \<le> fcard s"
    by (simp add: allExpanded_def sectionOrder_length fcard_initialExpanded)
  with assms show "s = initialExpanded" by (rule fcard_seteq)
next
  assume "s = initialExpanded"
  then show "allExpanded s"
    by (simp add: allExpanded_def sectionOrder_length fcard_initialExpanded)
qed

lemma allCollapsed_iff: "allCollapsed s \<longleftrightarrow> s = {||}"
  by (simp add: allCollapsed_def)

lemma toggleSection_subset:
  assumes "s |\<subseteq>| initialExpanded" and "k \<in> set sectionOrder"
  shows "toggleSection k s |\<subseteq>| initialExpanded"
proof -
  from assms(2) have "k |\<in>| initialExpanded"
    by (simp add: initialExpanded_eq fset_of_list.rep_eq)
  with assms(1) show ?thesis
    by (auto simp: toggleSection_def)
qed

lemma toggleSection_member:
  "j |\<in>| toggleSection k s \<longleftrightarrow> (if j = k then k |\<notin>| s else j |\<in>| s)"
  by (auto simp: toggleSection_def)

lemma sectionOrder_member: "k \<in> set sectionOrder \<Longrightarrow> k |\<in>| initialExpanded"
  by (simp add: initialExpanded_eq fset_of_list.rep_eq)

lemma toggle_initial_proper:
  assumes "k \<in> set sectionOrder" and "j \<in> set sectionOrder" and "j \<noteq> k"
  shows "toggleSection k initialExpanded \<noteq> initialExpanded"
    and "toggleSection k initialExpanded \<noteq> {||}"
proof -
  have "k |\<notin>| toggleSection k initialExpanded"
    using assms(1) by (simp add: toggleSection_member sectionOrder_member)
  then show "toggleSection k initialExpanded \<noteq> initialExpanded"
    using sectionOrder_member [OF assms(1)] by metis
  have "j |\<in>| toggleSection k initialExpanded"
    using assms(2,3) by (simp add: toggleSection_member sectionOrder_member)
  then show "toggleSection k initialExpanded \<noteq> {||}"
    by auto
qed

lemma reachable_toggle_initial:
  assumes "k \<in> set sectionOrder"
  shows "reachable (toggleSection k initialExpanded)"
proof -
  let ?b = "\<lparr> className = ''w-full'', disabled = False, onClick = ToggleSection k,
               opacity = None, children = [] \<rparr> :: accordion_handler button"
  have "?b \<in> set sectionHeaderButtons"
    using assms by (auto simp: sectionHeaderButtons_def)
  from reachable.toggle [OF reachable.initial this, of None]
  show ?thesis
    by (simp add: press_def click_def run_handler_def)
qed

lemma press_toggle:
  assumes "b \<in> set sectionHeaderButtons"
  obtains k where "k \<in> set sectionOrder" and "press leadData b s = toggleSection k s"
  using assms by (auto simp: sectionHeaderButtons_def press_def click_def run_handler_def)

lemma press_expand:
  "press leadData (expandAllButton s) s = (if allExpanded s then s else expandAll leadData s)"
  by (simp add: press_def click_def expandAllButton_def run_handler_def)

lemma press_collapse: "press leadData (collapseAllButton s) s = {||}"
  by (simp add: press_def click_def collapseAllButton_def run_handler_def collapseAll_def
      allCollapsed_iff)

lemma reachable_subset: "reachable s \<Longrightarrow> s |\<subseteq>| initialExpanded"
proof (induction rule: reachable.induct)
  case initial
  show ?case by simp
next
  case (toggle s b leadData)
  from toggle.hyps(2) obtain k where "k \<in> set sectionOrder"
    and "press leadData b s = toggleSection k s"
    by (rule press_toggle)
  with toggle.IH show ?case by (simp add: toggleSection_subset)
next
  case (expand s ld)
  then show ?case by (simp add: press_expand expandAll_def lead_typed_keys)
next
  case (collapse s leadData)
  show ?case by (simp add: press_collapse)
qed

text \<open>
  C8.  Expand All sets \<open>expandedSections\<close> to the set of the section keys of the lead
  record, Collapse All sets it to the empty set.  The Collapse All button is disabled
  exactly when nothing is expanded, and, for a well-typed lead record and a state the
  panel can be in, the Expand All button exactly when every section key of the record
  is expanded.  A press of a disabled control changes nothing, nor would its handler.
\<close>

theorem expand_all_and_collapse_all:
  "run_handler (Some ld) ExpandAll s = fset_of_list (Object_keys (sections ld))
   \<and> run_handler leadData CollapseAll s = {||}
   \<and> onClick (expandAllButton s) = ExpandAll
   \<and> onClick (collapseAllButton s) = CollapseAll
   \<and> (disabled (collapseAllButton s) \<longleftrightarrow> s = {||})
   \<and> (lead_typed ld \<and> reachable s \<longrightarrow>
        (disabled (expandAllButton s) \<longleftrightarrow> s = fset_of_list (Object_keys (sections ld))))
   \<and> (disabled (expandAllButton s) \<longrightarrow> press (Some ld) (expandAllButton s) s = s)
   \<and> (disabled (collapseAllButton s) \<longrightarrow> press leadData (collapseAllButton s) s = s)
   \<and> (\<not> disabled (expandAllButton s) \<longrightarrow>
        press (Some ld) (expandAllButton s) s = fset_of_list (Object_keys (sections ld)))
   \<and> (\<not> disabled (collapseAllButton s) \<longrightarrow> press leadData (collapseAllButton s) s = {||})
   \<and> (lead_typed ld \<and> reachable s \<and> disabled (expandAllButton s) \<longrightarrow>
        run_handler (Some ld) ExpandAll s = s)
   \<and> (disabled (collapseAllButton s) \<longrightarrow> run_handler leadData CollapseAll s = s)"
proof -
  have e: "lead_typed ld \<Longrightarrow> reachable s \<Longrightarrow>
      allExpanded s \<longleftrightarrow> s = fset_of_list (Object_keys (sections ld))"
    using subset_initial_size [OF reachable_subset] by (simp add: lead_typed_keys)
  have d: "disabled (expandAllButton s) = allExpanded s"
    "disabled (collapseAllButton s) = (s = {||})"
    by (simp_all add: expandAllButton_def collapseAllButton_def allCollapsed_iff)
  have h: "run_handler (Some ld) ExpandAll s = fset_of_list (Object_keys (sections ld))"
    "run_handler leadData CollapseAll s = {||}"
    by (simp_all add: run_handler_def expandAll_def collapseAll_def)
  have o: "onClick (expandAllButton s) = ExpandAll" "onClick (collapseAllButton s) = CollapseAll"
    by (simp_all add: expandAllButton_def collapseAllButton_def)
  have p: "press (Some ld) (expandAllButton s) s
      = (if allExpanded s then s else fset_of_list (Object_keys (sections ld)))"
    by (simp add: press_expand expandAll_def)
  show ?thesis
    unfolding d h o p press_collapse using e by auto
qed

theorem expand_all_and_collapse_all_witness:
  "lead_typed example_lead
   \<and> reachable (toggleSection ''property'' initialExpanded)
   \<and> \<not> disabled (expandAllButton (toggleSection ''property'' initialExpanded))
   \<and> press (Some example_lead) (expandAllButton (toggleSection ''property'' initialExpanded))
       (toggleSection ''property'' initialExpanded)
     = initialExpanded
   \<and> disabled (expandAllButton initialExpanded)
   \<and> disabled (collapseAllButton {||})
   \<and> press None (collapseAllButton {||}) {||} = {||}"
proof -
  let ?s = "toggleSection ''property'' initialExpanded"
  let ?keys = "fset_of_list (Object_keys (sections example_lead))"
  have typed: "lead_typed example_lead"
    by (simp add: lead_typed_def example_lead_def Object_keys_def comp_def sectionOrder_distinct)
  have keys: "?keys = initialExpanded"
    using typed by (rule lead_typed_keys)
  have m: "''property'' \<in> set sectionOrder" "''contact'' \<in> set sectionOrder"
    by (simp_all add: sectionOrder_def)
  have r: "reachable ?s"
    using m(1) by (rule reachable_toggle_initial)
  have ne: "?s \<noteq> ?keys"
    unfolding keys using m by (intro toggle_initial_proper(1) [of _ "''contact''"]) simp_all
  note t = expand_all_and_collapse_all [of example_lead ?s None]
  note t0 = expand_all_and_collapse_all [of example_lead initialExpanded None]
  from t typed r ne have 1: "\<not> disabled (expandAllButton ?s)" by blast
  with t have 2: "press (Some example_lead) (expandAllButton ?s) ?s = ?keys" by blast
  from t0 typed reachable.initial keys have 3: "disabled (expandAllButton initialExpanded)"
    by metis
  from expand_all_and_collapse_all [of example_lead "{||}" None]
  have 4: "disabled (collapseAllButton {||})"
    and 5: "press None (collapseAllButton {||}) {||} = {||}"
    by blast+
  from typed r 1 2 3 4 5 keys show ?thesis by simp
qed

text \<open>
  C10.  From the initial state, toggling a section of \<open>sectionOrder\<close>, Expand All and
  Collapse All keep \<open>expandedSections\<close> within the eight section keys.  So size 8
  (\<open>allExpanded\<close>) means that all eight sections are expanded, and size 0
  (\<open>allCollapsed\<close>) that none is.
\<close>

theorem reachable_expanded_within_section_keys:
  assumes "reachable s"
  shows "s |\<subseteq>| fset_of_list sectionOrder
       \<and> (fcard s = 8 \<longleftrightarrow> s = fset_of_list sectionOrder)
       \<and> (allExpanded s \<longleftrightarrow> (\<forall>k \<in> set sectionOrder. k |\<in>| s))
       \<and> (fcard s = 0 \<longleftrightarrow> s = {||})
       \<and> (allCollapsed s \<longleftrightarrow> (\<forall>k \<in> set sectionOrder. k |\<notin>| s))"
proof -
  from assms have sub: "s |\<subseteq>| initialExpanded" by (rule reachable_subset)
  have all: "allExpanded s \<longleftrightarrow> s = initialExpanded"
    using sub by (rule subset_initial_size)
  have "s = initialExpanded \<longleftrightarrow> (\<forall>k \<in> set sectionOrder. k |\<in>| s)"
    using sub by (auto simp: initialExpanded_eq fset_of_list.rep_eq)
  moreover have "s = {||} \<longleftrightarrow> (\<forall>k \<in> set sectionOrder. k |\<notin>| s)"
    using sub by (auto simp: initialExpanded_eq fset_of_list.rep_eq)
  ultimately show ?thesis
    using sub all by (simp add: initialExpanded_eq allExpanded_def allCollapsed_def
        sectionOrder_length)
qed

theorem reachable_expanded_within_section_keys_witness:
  "reachable (toggleSection ''contact'' initialExpanded)
   \<and> toggleSection ''contact'' initialExpanded |\<subseteq>| fset_of_list sectionOrder
   \<and> fcard (toggleSection ''contact'' initialExpanded) \<noteq> 8
   \<and> fcard (toggleSection ''contact'' initialExpanded) \<noteq> 0"
proof -
  let ?s = "toggleSection ''contact'' initialExpanded"
  have m: "''contact'' \<in> set sectionOrder" "''property'' \<in> set sectionOrder"
    by (simp_all add: sectionOrder_def)
  have r: "reachable ?s"
    using m(1) by (rule reachable_toggle_initial)
  have ne: "?s \<noteq> fset_of_list sectionOrder" "?s \<noteq> {||}"
    unfolding initialExpanded_eq [symmetric]
    using m by (simp_all add: toggle_initial_proper [of _ "''property''"])
  from reachable_expanded_within_section_keys [OF r] ne r
  show ?thesis by blast
qed

section \<open>Service-area check\<close>

lemma polygon_accepted_calls:
  assumes "polygon_accepted lib pt f" and "geometry f = PolygonGeometry coords"
  shows "turfPolygon lib coords = None" and "\<exists>b. booleanPointInPolygon lib pt coords = Inr b"
  using assms by (auto simp: polygon_accepted_def split: sum.splits)

lemma findArea_accepted:
  assumes "list_all (polygon_accepted lib pt)
             (filter (\<lambda>f. (case geometry f of PolygonGeometry _ \<Rightarrow> True | PointGeometry _ \<Rightarrow> False)
                          \<and> properties_type f = Some ''service_area'') fs)"
  shows "findArea lib pt fs =
     Inr (map_option (\<lambda>f. js_or (properties_name f) ''Unknown Area'')
            (find (polygon_contains lib pt)
               (filter (\<lambda>f. (case geometry f of PolygonGeometry _ \<Rightarrow> True | PointGeometry _ \<Rightarrow> False)
                            \<and> properties_type f = Some ''service_area'') fs)))"
  using assms
proof (induction fs)
  case Nil
  show ?case by simp
next
  case (Cons f fs)
  show ?case
  proof (cases "geometry f")
    case (PointGeometry p)
    with Cons show ?thesis by simp
  next
    case (PolygonGeometry coords)
    show ?thesis
    proof (cases "properties_type f = Some ''service_area''")
      case False
      with Cons PolygonGeometry show ?thesis by simp
    next
      case True
      with Cons.prems PolygonGeometry
      have acc: "polygon_accepted lib pt f"
        and rest: "list_all (polygon_accepted lib pt)
             (filter (\<lambda>f. (case geometry f of PolygonGeometry _ \<Rightarrow> True | PointGeometry _ \<Rightarrow> False)
                          \<and> properties_type f = Some ''service_area'') fs)"
        by simp_all
      from acc PolygonGeometry have ok: "turfPolygon lib coords = None"
        and "\<exists>b. booleanPointInPolygon lib pt coords = Inr b"
        by (rule polygon_accepted_calls)+
      then obtain b where b: "booleanPointInPolygon lib pt coords = Inr b"
        by blast
      from Cons.IH [OF rest] True PolygonGeometry ok b show ?thesis
        by (simp add: polygon_contains_def)
    qed
  qed
qed

lemma coordinatesEffect_throw_no_callback:
  assumes "raised (coordinatesEffect lib hasMap marker coordinates geoJsonData hasCallback)
             \<noteq> None"
  shows "callbacks (coordinatesEffect lib hasMap marker coordinates geoJsonData hasCallback) = []"
  using assms
  by (auto simp: coordinatesEffect_def Let_def split: option.splits sum.splits if_splits)

text \<open>
  C4 (as amended).  With the map set up, the dataset loaded and the callback supplied,
  take a coordinate pair that the map library accepts (marker and fly-to) and that the
  geometry library accepts together with every service-area polygon of the dataset.
  Then the effect throws nothing and invokes \<open>onServiceAreaCheck\<close> exactly once.  The
  candidates are the features with a Polygon geometry and type \<open>service_area\<close>, in the
  order of the dataset; if none contains the point the call is \<open>(false, null)\<close>,
  otherwise \<open>(true, n)\<close>, where \<open>n\<close> is the name of the first that contains it when that
  name is present and non-empty, and \<open>Unknown Area\<close> when it is not.
\<close>

theorem service_area_check_reports_first_containing_polygon:
  assumes "setLngLat lib pt = None" and "flyTo lib pt = None" and "point lib pt = None"
    and "list_all (polygon_accepted lib pt) (serviceAreaPolygons g)"
  shows "callbacks (coordinatesEffect lib True marker (Some pt) (Some g) True) =
     [case find (polygon_contains lib pt) (serviceAreaPolygons g) of
        None \<Rightarrow> ServiceAreaCheck False None
      | Some f \<Rightarrow> ServiceAreaCheck True (Some (js_or (properties_name f) ''Unknown Area''))]
   \<and> raised (coordinatesEffect lib True marker (Some pt) (Some g) True) = None
   \<and> (\<forall>f nm. properties_name f = Some nm \<and> nm \<noteq> [] \<longrightarrow>
         js_or (properties_name f) ''Unknown Area'' = nm)
   \<and> (\<forall>f. properties_name f = None \<or> properties_name f = Some [] \<longrightarrow>
         js_or (properties_name f) ''Unknown Area'' = ''Unknown Area'')"
proof -
  obtain lng lat where pt: "pt = (lng, lat)" by (cases pt)
  let ?r = "coordinatesEffect lib True marker (Some pt) (Some g) True"
  have found: "findArea lib pt (features g) =
      Inr (map_option (\<lambda>f. js_or (properties_name f) ''Unknown Area'')
             (find (polygon_contains lib pt) (serviceAreaPolygons g)))"
    using assms(4) unfolding serviceAreaPolygons_def by (rule findArea_accepted)
  have "callbacks ?r =
     [case find (polygon_contains lib pt) (serviceAreaPolygons g) of
        None \<Rightarrow> ServiceAreaCheck False None
      | Some f \<Rightarrow> ServiceAreaCheck True (Some (js_or (properties_name f) ''Unknown Area''))]"
    and "raised ?r = None"
    using assms(1-3) found
    by (simp_all add: pt coordinatesEffect_def Let_def split: option.splits)
  then show ?thesis
    by (auto simp: js_or_def)
qed

lemma example_service_areas:
  "serviceAreaPolygons example_areas =
     [rectangle (Some ''North Zone'') ''service_area'' 0 0 10 10,
      rectangle (Some ''Wider Zone'') ''service_area'' 0 0 50 50,
      rectangle None ''service_area'' 100 40 110 50]"
  by (simp add: serviceAreaPolygons_def example_areas_def rectangle_def properties_type_def)

lemma rectangle_accepted:
  "polygon_accepted example_libraries pt (rectangle nm ty x0 y0 x1 y1)"
  by (simp add: polygon_accepted_def example_libraries_def rectangle_def)

lemma rectangle_contains:
  "polygon_contains example_libraries (x, y) (rectangle nm ty x0 y0 x1 y1) \<longleftrightarrow>
     (x0 \<le> x \<or> x1 \<le> x) \<and> (x \<le> x0 \<or> x \<le> x1) \<and> (y0 \<le> y \<or> y1 \<le> y) \<and> (y \<le> y0 \<or> y \<le> y1)"
  by (auto simp: polygon_contains_def example_libraries_def in_rectangle_def rectangle_def)

lemma rectangle_name: "properties_name (rectangle nm ty x0 y0 x1 y1) = nm"
  by (simp add: properties_name_def rectangle_def)

lemma example_areas_accepted:
  "list_all (polygon_accepted example_libraries pt) (serviceAreaPolygons example_areas)"
  by (simp add: example_service_areas rectangle_accepted)

lemma example_map_accepts:
  "- 90 \<le> y \<Longrightarrow> y \<le> 90 \<Longrightarrow> setLngLat example_libraries (x, y) = None"
  "- 90 \<le> y \<Longrightarrow> y \<le> 90 \<Longrightarrow> flyTo example_libraries (x, y) = None"
  "point example_libraries (x, y) = None"
  by (simp_all add: example_libraries_def latitude_check_def)

theorem service_area_check_reports_first_containing_polygon_witness:
  "callbacks (coordinatesEffect example_libraries True None (Some (5, 5))
                (Some example_areas) True)
     = [ServiceAreaCheck True (Some ''North Zone'')]
   \<and> callbacks (coordinatesEffect example_libraries True (Some (5, 5)) (Some (70, 70))
                  (Some example_areas) True)
     = [ServiceAreaCheck False None]"
proof -
  have 1: "find (polygon_contains example_libraries (5, 5)) (serviceAreaPolygons example_areas)
      = Some (rectangle (Some ''North Zone'') ''service_area'' 0 0 10 10)"
    by (simp add: example_service_areas rectangle_contains)
  have 2: "find (polygon_contains example_libraries (70, 70)) (serviceAreaPolygons example_areas)
      = None"
    by (simp add: example_service_areas rectangle_contains)
  have near: "setLngLat example_libraries (5, 5) = None" "flyTo example_libraries (5, 5) = None"
      "point example_libraries (5, 5) = None"
    and far: "setLngLat example_libraries (70, 70) = None"
      "flyTo example_libraries (70, 70) = None" "point example_libraries (70, 70) = None"
    by (simp_all add: example_map_accepts)
  from service_area_check_reports_first_containing_polygon
         [of example_libraries "(5, 5)" example_areas None,
          OF near(1) near(2) near(3) example_areas_accepted]
  have "callbacks (coordinatesEffect example_libraries True None (Some (5, 5))
                     (Some example_areas) True)
      = [case find (polygon_contains example_libraries (5, 5))
                (serviceAreaPolygons example_areas) of
           None \<Rightarrow> ServiceAreaCheck False None
         | Some f \<Rightarrow> ServiceAreaCheck True (Some (js_or (properties_name f) ''Unknown Area''))]"
    by (rule conjunct1)
  then have inside: "callbacks (coordinatesEffect example_libraries True None (Some (5, 5))
                    (Some example_areas) True)
      = [ServiceAreaCheck True (Some ''North Zone'')]"
    unfolding 1 by (simp add: rectangle_name js_or_def)
  from service_area_check_reports_first_containing_polygon
         [of example_libraries "(70, 70)" example_areas "Some (5, 5)",
          OF far(1) far(2) far(3) example_areas_accepted]
  have "callbacks (coordinatesEffect example_libraries True (Some (5, 5)) (Some (70, 70))
                     (Some example_areas) True)
      = [case find (polygon_contains example_libraries (70, 70))
                (serviceAreaPolygons example_areas) of
           None \<Rightarrow> ServiceAreaCheck False None
         | Some f \<Rightarrow> ServiceAreaCheck True (Some (js_or (properties_name f) ''Unknown Area''))]"
    by (rule conjunct1)
  then have outside: "callbacks (coordinatesEffect example_libraries True (Some (5, 5))
                    (Some (70, 70)) (Some example_areas) True)
      = [ServiceAreaCheck False None]"
    unfolding 2 by simp
  from inside outside show ?thesis by (rule conjI)
qed

text \<open>
  The unamended statement has the name of the polygon reported in every case, and the
  callback invoked for every dataset and coordinate pair.  For a point in a polygon
  without a name the callback receives \<open>Unknown Area\<close>; for a latitude the map library
  refuses and for a ring the geometry library refuses, the effect ends in the throw and
  the callback is not invoked.
\<close>

theorem service_area_check_reports_name_counterexample:
  "find (polygon_contains example_libraries (105, 45)) (serviceAreaPolygons example_areas)
     = Some (rectangle None ''service_area'' 100 40 110 50)
   \<and> callbacks (coordinatesEffect example_libraries True None (Some (105, 45))
                  (Some example_areas) True)
     = [ServiceAreaCheck True (Some ''Unknown Area'')]
   \<and> callbacks (coordinatesEffect example_libraries True None (Some (105, 45))
                  (Some example_areas) True)
     \<noteq> [ServiceAreaCheck True (properties_name (rectangle None ''service_area'' 100 40 110 50))]
   \<and> callbacks (coordinatesEffect example_libraries True None (Some (105, 105))
                  (Some example_areas) True)
     = []
   \<and> raised (coordinatesEffect example_libraries True None (Some (105, 105))
               (Some example_areas) True)
     = Some (Error ''Invalid LngLat latitude value: must be between -90 and 90'')
   \<and> callbacks (coordinatesEffect example_libraries True None (Some (5, 5))
                  (Some malformed_areas) True)
     = []
   \<and> raised (coordinatesEffect example_libraries True None (Some (5, 5))
               (Some malformed_areas) True)
     = Some (Error ''Each LinearRing of a Polygon must have 4 or more Positions.'')"
proof -
  have 1: "find (polygon_contains example_libraries (105, 45)) (serviceAreaPolygons example_areas)
      = Some (rectangle None ''service_area'' 100 40 110 50)"
    by (simp add: example_service_areas rectangle_contains)
  have found: "findArea example_libraries (105, 45) (features example_areas)
      = Inr (Some ''Unknown Area'')"
    using findArea_accepted [of example_libraries "(105, 45)" "features example_areas"]
      example_areas_accepted [of "(105, 45)"]
    by (simp add: serviceAreaPolygons_def [symmetric] 1 rectangle_name js_or_def)
  have 2: "callbacks (coordinatesEffect example_libraries True None (Some (105, 45))
                 (Some example_areas) True)
     = [ServiceAreaCheck True (Some ''Unknown Area'')]"
    by (simp add: coordinatesEffect_def Let_def example_map_accepts found)
  have 3: "setLngLat example_libraries (105, 105)
      = Some (Error ''Invalid LngLat latitude value: must be between -90 and 90'')"
    by (simp add: example_libraries_def latitude_check_def)
  have 4: "findArea example_libraries (5, 5) (features malformed_areas)
      = Inl (Error ''Each LinearRing of a Polygon must have 4 or more Positions.'')"
    by (simp add: malformed_areas_def properties_type_def example_libraries_def)
  have 5: "callbacks (coordinatesEffect example_libraries True None (Some (105, 105))
                  (Some example_areas) True) = []"
    "raised (coordinatesEffect example_libraries True None (Some (105, 105))
               (Some example_areas) True)
     = Some (Error ''Invalid LngLat latitude value: must be between -90 and 90'')"
    by (simp_all add: coordinatesEffect_def Let_def 3)
  have 6: "callbacks (coordinatesEffect example_libraries True None (Some (5, 5))
                  (Some malformed_areas) True) = []"
    "raised (coordinatesEffect example_libraries True None (Some (5, 5))
               (Some malformed_areas) True)
     = Some (Error ''Each LinearRing of a Polygon must have 4 or more Positions.'')"
    by (simp_all add: coordinatesEffect_def Let_def example_map_accepts 4)
  show ?thesis
    unfolding 1 2 5 6 by (simp add: rectangle_name)
qed

end
